theory Spec2Isabelle
  imports Complex_Main
begin

section \<open>Python values: errors, geometries, records\<close>

text \<open>
  The model follows \<^verbatim>\<open>pysal/core/IOPlugins/pyShpIO.py\<close> (Python 2). Every exception the
  source can raise is a value of \<open>py_error\<close>; an operation on a session returns the session
  it leaves behind together with either the error raised or the value returned.
\<close>

datatype py_error =
  TypeError | KeyError | IndexError | AttributeError | NameError | StopIteration
  | NotImplementedError

type_synonym 'a vertex = "'a \<times> 'a"
type_synonym 'a ring = "'a vertex list"

text \<open>
  Modelled from the spec: the classes \<^verbatim>\<open>cg.Point\<close>, \<^verbatim>\<open>cg.Chain\<close> and \<^verbatim>\<open>cg.Polygon\<close> are not
  under src/. The spec's data model makes them value types:
  \<^verbatim>\<open>Point{x,y, optional z, optional m}\<close>, \<^verbatim>\<open>Polyline{parts}\<close>,
  \<^verbatim>\<open>Polygon{shell rings, hole rings}\<close>. The source reads a point through \<^verbatim>\<open>len(shape)\<close> and
  \<^verbatim>\<open>shape[i]\<close>, so a point holds its coordinate tuple; the reader sets the attributes
  \<^verbatim>\<open>Z\<close> and \<^verbatim>\<open>M\<close> on the object it built, so they are separate optional fields.
\<close>

datatype 'a shape =
    Point "'a list" "'a option" "'a option"
  | Chain "'a ring list"
  | Polygon "'a ring list" "'a ring list"

datatype variant = cgPolygon | cgPoint | cgChain

fun type_of :: "'a shape \<Rightarrow> variant" where
  "type_of (Point l z m) = cgPoint"
| "type_of (Chain ps) = cgChain"
| "type_of (Polygon ps hs) = cgPolygon"

definition STRING_TO_TYPE :: "string \<Rightarrow> variant option" where
  "STRING_TO_TYPE = map_of
     [(''POLYGON'', cgPolygon), (''POINT'', cgPoint), (''POINTM'', cgPoint),
      (''POINTZ'', cgPoint), (''ARC'', cgChain), (''POLYGONZ'', cgPolygon)]"

fun TYPE_TO_STRING :: "variant \<Rightarrow> string" where
  "TYPE_TO_STRING cgPolygon = ''POLYGON''"
| "TYPE_TO_STRING cgPoint = ''POINT''"
| "TYPE_TO_STRING cgChain = ''ARC''"

text \<open>
  The record dictionary \<^verbatim>\<open>rec\<close>: one optional field per key the source reads or writes;
  \<open>None\<close> is an absent key, and reading an absent key raises \<open>KeyError\<close>.
\<close>

text \<open>
  Modelled from the spec: the table \<^verbatim>\<open>shp_file.SHAPE_TYPES\<close> is not under src/; the record
  carries its shape-type tag, kept here by name.
\<close>

record 'a RawRecord =
  Shape_Type :: "string option"
  X :: "'a option"
  Y :: "'a option"
  M :: "'a option"
  Z :: "'a option"
  BBOX_Xmin :: "'a option"
  BBOX_Ymin :: "'a option"
  BBOX_Xmax :: "'a option"
  BBOX_Ymax :: "'a option"
  NumParts :: "int option"
  Parts_Index :: "int list option"
  NumPoints :: "int option"
  Vertices :: "'a ring option"

definition empty_rec :: "'a RawRecord" where
  "empty_rec = \<lparr>Shape_Type = None, X = None, Y = None, M = None, Z = None,
     BBOX_Xmin = None, BBOX_Ymin = None, BBOX_Xmax = None, BBOX_Ymax = None,
     NumParts = None, Parts_Index = None, NumPoints = None, Vertices = None\<rparr>"

text \<open>
  Modelled from the spec: the record-stream collaborator \<^verbatim>\<open>shp_file\<close> is not under src/.
  Its consumed contract: a declared type, \<^verbatim>\<open>getRecord(index)\<close> that signals out-of-range
  beyond the last record, and \<^verbatim>\<open>appendRecord\<close>.
\<close>

record 'a shp_file =
  ftype :: string
  shapes :: "'a RawRecord list"

definition get_shape :: "'a shp_file \<Rightarrow> nat \<Rightarrow> py_error + 'a RawRecord" where
  "get_shape d i = (if i < length (shapes d) then Inr (shapes d ! i) else Inl IndexError)"

definition add_shape :: "'a shp_file \<Rightarrow> 'a RawRecord \<Rightarrow> 'a shp_file" where
  "add_shape d r = d\<lparr>shapes := shapes d @ [r]\<rparr>"

text \<open>
  The geometry library \<^verbatim>\<open>pysal.cg\<close> is not under src/ either. What the source calls from
  it is a parameter of the model: the orientation test, the bounding box of a shape
  (left, lower, right, upper) and the truth value of a shape object in \<^verbatim>\<open>if res:\<close>.
\<close>

record 'a cg =
  is_clockwise :: "'a ring \<Rightarrow> bool"
  bounding_box :: "'a shape \<Rightarrow> 'a \<times> 'a \<times> 'a \<times> 'a"
  truth :: "'a shape \<Rightarrow> bool"

text \<open>
  Names bound at module level: those every module has, then those bound by the imports
  and assignments of the source, in order. A name that is neither here nor a builtin
  raises \<open>NameError\<close> when it is read.
  \<^verbatim>\<open>import pysal\<close> is commented out, \<^verbatim>\<open>import pysal.cg as cg\<close> binds only \<^verbatim>\<open>cg\<close>, and the
  \<^verbatim>\<open>from ... import\<close> lines bind only the names they import.
\<close>

definition module_globals :: "string list" where
  "module_globals =
     [''__name__'', ''__doc__'', ''__file__'', ''__package__'', ''__builtins__'',
      ''__author__'', ''__credits__'', ''__all__'', ''FileIOBase'', ''shp_file'', ''cg'',
      ''GeoSeries'', ''warn'', ''unittest'', ''STRING_TO_TYPE'', ''TYPE_TO_STRING'',
      ''PurePyShpWrapper'']"

definition global_is_clockwise :: "'a cg \<Rightarrow> string \<Rightarrow> py_error + ('a ring \<Rightarrow> bool)" where
  \<comment> \<open>\<^verbatim>\<open>pysal.cg.is_clockwise\<close> or \<^verbatim>\<open>cg.is_clockwise\<close>: the first name is looked up in the module.\<close>
  "global_is_clockwise c name =
     (if name \<in> set module_globals then Inr (is_clockwise c) else Inl NameError)"

section \<open>The session\<close>

datatype pytype = NoType | Cls variant | Str string

datatype wfn = BaseWrite | FirstWrite | Writer

datatype message = TopologyFixed nat | ZeroParts nat

datatype event = Warn message | Print message

record 'a session =
  pos :: nat
  dataObj :: "'a shp_file option"
  stype :: pytype
  write_fn :: wfn
  diag :: "event list"

definition open_shp :: "'a session \<Rightarrow> 'a shp_file \<Rightarrow> py_error + 'a session" where
  \<comment> \<open>\<^verbatim>\<open>__open\<close>; the second argument is what \<^verbatim>\<open>shp_file(self.datapath)\<close> opens.\<close>
  "open_shp self file =
     (case STRING_TO_TYPE (ftype file) of
        None \<Rightarrow> Inl TypeError
      | Some c \<Rightarrow> Inr (self\<lparr>dataObj := Some file, stype := Cls c\<rparr>))"

definition create :: "'a session \<Rightarrow> 'a session" where
  \<comment> \<open>\<^verbatim>\<open>__create\<close>\<close>
  "create self = self\<lparr>write_fn := FirstWrite\<rparr>"

definition init :: "'a shp_file \<Rightarrow> string \<Rightarrow> py_error + 'a session" where
  \<comment> \<open>\<^verbatim>\<open>__init__\<close>\<close>
  "init file mode =
     (let self = \<lparr>pos = 0, dataObj = None, stype = NoType, write_fn = BaseWrite, diag = []\<rparr>
      in if mode = ''r'' \<or> mode = ''rb'' then open_shp self file
         else if mode = ''w'' \<or> mode = ''wb'' then Inr (create self)
         else Inr self)"

definition len_session :: "'a session \<Rightarrow> nat" where
  \<comment> \<open>\<^verbatim>\<open>__len__\<close>\<close>
  "len_session self = (case dataObj self of None \<Rightarrow> 0 | Some d \<Rightarrow> length (shapes d))"

section \<open>Writing\<close>

fun parts_index_loop :: "int list \<Rightarrow> nat list \<Rightarrow> int list" where
  \<comment> \<open>\<^verbatim>\<open>for l in ...: partsIndex.append(partsIndex[-1] + l)\<close>\<close>
  "parts_index_loop partsIndex [] = partsIndex"
| "parts_index_loop partsIndex (l # ls) =
     parts_index_loop (partsIndex @ [last partsIndex + int l]) ls"

definition parts_record ::
  "'a RawRecord \<Rightarrow> 'a ring list \<Rightarrow> nat \<Rightarrow> 'a RawRecord" where
  \<comment> \<open>lines 141 to 148, after \<^verbatim>\<open>NumParts\<close> and \<^verbatim>\<open>all_parts\<close> are known\<close>
  "parts_record r all_parts n =
     (let partsIndex = parts_index_loop [0] (butlast (map length all_parts));
          verts = concat all_parts
      in r\<lparr>NumParts := Some (int n), Parts_Index := Some partsIndex,
            NumPoints := Some (int (length verts)), Vertices := Some verts\<rparr>)"

definition encode :: "'a cg \<Rightarrow> string \<Rightarrow> 'a shape \<Rightarrow> py_error + 'a RawRecord" where
  \<comment> \<open>lines 118 to 148 of \<^verbatim>\<open>__writer\<close>: the record built for \<^verbatim>\<open>shape\<close> when \<^verbatim>\<open>self.type\<close> is \<open>t\<close>\<close>
  "encode c t shape =
     (let r = empty_rec\<lparr>Shape_Type := Some t\<rparr> in
      if t = ''POINT'' then
        (case shape of
           Point l z m \<Rightarrow>
             if length l < 2 then Inl IndexError
             else Inr (r\<lparr>X := Some (l ! 0), Y := Some (l ! 1),
                          M := (if length l > 2 then Some (l ! 2) else None),
                          Z := (if length l > 3 then Some (l ! 3) else None)\<rparr>)
         | _ \<Rightarrow> Inl TypeError)
      else
        (case bounding_box c shape of (left, lower, right, upper) \<Rightarrow>
         let r = r\<lparr>BBOX_Xmin := Some left, BBOX_Ymin := Some lower,
                    BBOX_Xmax := Some right, BBOX_Ymax := Some upper\<rparr> in
         (case shape of
            Point l z m \<Rightarrow> Inl AttributeError
          | Chain ps \<Rightarrow>
              if t = ''POLYGON'' then Inl AttributeError
              else Inr (parts_record r ps (length ps))
          | Polygon ps hs \<Rightarrow>
              if t = ''POLYGON'' then
                (let holes = map rev (filter (\<lambda>hole. hole \<noteq> []) hs)
                 in Inr (parts_record r (ps @ holes) (length ps + length holes)))
              else Inr (parts_record r ps (length ps)))))"

definition writer :: "'a cg \<Rightarrow> 'a session \<Rightarrow> 'a shape \<Rightarrow> 'a session \<times> (py_error + unit)" where
  \<comment> \<open>\<^verbatim>\<open>__writer\<close>\<close>
  "writer c self shape =
     (case stype self of
        NoType \<Rightarrow> (self, Inl AttributeError)
      | Cls k \<Rightarrow> (self, Inl TypeError)
      | Str t \<Rightarrow>
          if TYPE_TO_STRING (type_of shape) \<noteq> t then (self, Inl TypeError)
          else
            (case encode c t shape of
               Inl e \<Rightarrow> (self, Inl e)
             | Inr r \<Rightarrow>
                 (case dataObj self of
                    None \<Rightarrow> (self, Inl AttributeError)
                  | Some d \<Rightarrow>
                      (self\<lparr>dataObj := Some (add_shape d r), pos := pos self + 1\<rparr>,
                       Inr ()))))"

definition firstWrite :: "'a cg \<Rightarrow> 'a session \<Rightarrow> 'a shape \<Rightarrow> 'a session \<times> (py_error + unit)" where
  \<comment> \<open>\<^verbatim>\<open>__firstWrite\<close>; \<^verbatim>\<open>len(shape)\<close> is read only when the shape is a point\<close>
  "firstWrite c self shape =
     (let t = TYPE_TO_STRING (type_of shape);
          t = (case shape of
                 Point l z m \<Rightarrow>
                   (let t1 = (if length l = 3 then ''POINTM'' else t)
                    in if length l = 4 then ''POINTZ'' else t1)
               | _ \<Rightarrow> t);
          self = self\<lparr>stype := Str t, dataObj := Some \<lparr>ftype = t, shapes = []\<rparr>,
                      write_fn := Writer\<rparr>
      in writer c self shape)"

definition self_write :: "'a cg \<Rightarrow> 'a session \<Rightarrow> 'a shape \<Rightarrow> 'a session \<times> (py_error + unit)" where
  \<comment> \<open>\<^verbatim>\<open>self.write\<close>: the bound method of the moment. Outside write mode it is the base
      class's, which is not under src/ (modelled as not implemented).\<close>
  "self_write c self shape =
     (case write_fn self of
        FirstWrite \<Rightarrow> firstWrite c self shape
      | Writer \<Rightarrow> writer c self shape
      | BaseWrite \<Rightarrow> (self, Inl NotImplementedError))"

fun writes :: "'a cg \<Rightarrow> 'a session \<Rightarrow> 'a shape list \<Rightarrow> 'a session" where
  \<comment> \<open>the session after a caller has tried each write in turn, catching the errors\<close>
  "writes c self [] = self"
| "writes c self (g # gs) = writes c (fst (self_write c self g)) gs"

section \<open>Reading\<close>

definition slice_bound :: "nat \<Rightarrow> int \<Rightarrow> nat" where
  \<comment> \<open>a slice index against a sequence of length \<open>n\<close>: negative counts from the end, both clipped\<close>
  "slice_bound n i = (if i < 0 then nat (max (int n + i) 0) else min (nat i) n)"

definition py_slice :: "'b list \<Rightarrow> int option \<Rightarrow> int option \<Rightarrow> 'b list" where
  \<comment> \<open>\<^verbatim>\<open>xs[a:b]\<close>, where \<open>None\<close> is an open end\<close>
  "py_slice xs a b =
     (let n = length xs;
          lo = (case a of None \<Rightarrow> 0 | Some i \<Rightarrow> slice_bound n i);
          hi = (case b of None \<Rightarrow> n | Some j \<Rightarrow> slice_bound n j)
      in take (hi - lo) (drop lo xs))"

fun split_parts :: "'b list \<Rightarrow> int option list \<Rightarrow> nat list \<Rightarrow> py_error + 'b list list" where
  \<comment> \<open>\<^verbatim>\<open>[verts[partsIndex[i]:partsIndex[i + 1]] for i in ...]\<close>\<close>
  "split_parts verts partsIndex [] = Inr []"
| "split_parts verts partsIndex (i # rest) =
     (if i + 1 < length partsIndex then
        (case split_parts verts partsIndex rest of
           Inl e \<Rightarrow> Inl e
         | Inr parts \<Rightarrow> Inr (py_slice verts (partsIndex ! i) (partsIndex ! (i + 1)) # parts))
      else Inl IndexError)"

datatype 'a args = Loc "'a list" | Flat "'a ring" | Nested "'a ring list"

text \<open>
  Modelled from the spec: the constructors called through \<^verbatim>\<open>self.type(...)\<close> are not under
  src/. They build the value types of the data model from what they are given: a point from
  its coordinate tuple, a chain or polygon from one vertex run (a single part) or from a
  list of parts, a polygon also from its holes, where \<^verbatim>\<open>None\<close> is no hole at all ("the hole
  set is empty, not a sentinel single hole"). Any other call is a \<open>TypeError\<close>.
\<close>

fun call_type :: "pytype \<Rightarrow> 'a args \<Rightarrow> 'a ring list option \<Rightarrow> py_error + 'a shape" where
  "call_type (Cls cgPoint) (Loc l) None = Inr (Point l None None)"
| "call_type (Cls cgChain) (Flat vs) None = Inr (Chain [vs])"
| "call_type (Cls cgChain) (Nested ps) None = Inr (Chain ps)"
| "call_type (Cls cgPolygon) (Flat vs) None = Inr (Polygon [vs] [])"
| "call_type (Cls cgPolygon) (Nested ps) None = Inr (Polygon ps [])"
| "call_type (Cls cgPolygon) (Nested ps) (Some hs) = Inr (Polygon ps hs)"
| "call_type ty a h = Inl TypeError"

fun set_Z :: "'a shape \<Rightarrow> 'a \<Rightarrow> 'a shape" where
  "set_Z (Point l z m) v = Point l (Some v) m"
| "set_Z shp v = shp"

fun set_M :: "'a shape \<Rightarrow> 'a \<Rightarrow> 'a shape" where
  "set_M (Point l z m) v = Point l z (Some v)"
| "set_M shp v = shp"

definition classify_parts ::
  "('a ring \<Rightarrow> bool) \<Rightarrow> pytype \<Rightarrow> 'a ring list \<Rightarrow> py_error + 'a shape" where
  \<comment> \<open>lines 172 to 177 of \<^verbatim>\<open>_read\<close>, once the orientation test \<open>f\<close> has been looked up\<close>
  "classify_parts f ty parts =
     (let is_cw = map f parts;
          vertices = map fst (filter (\<lambda>(part, cw). cw) (zip parts is_cw));
          holes = map fst (filter (\<lambda>(part, cw). \<not> cw) (zip parts is_cw));
          holes = (if holes = [] then None else Some holes)
      in call_type ty (Nested vertices) holes)"

definition decode ::
  "'a cg \<Rightarrow> string \<Rightarrow> pytype \<Rightarrow> nat \<Rightarrow> 'a RawRecord \<Rightarrow> event list \<times> (py_error + 'a shape)" where
  \<comment> \<open>lines 159 to 192 of \<^verbatim>\<open>_read\<close>: \<open>t\<close> is \<^verbatim>\<open>self.dataObj.type()\<close>, \<open>ty\<close> is \<^verbatim>\<open>self.type\<close> and
      \<open>p\<close> is \<^verbatim>\<open>self.pos\<close>, already advanced; the events are the warnings and printed lines\<close>
  "decode c t ty p r =
     (if t = ''POINT'' then
        (case X r of None \<Rightarrow> ([], Inl KeyError) | Some x \<Rightarrow>
        (case Y r of None \<Rightarrow> ([], Inl KeyError) | Some y \<Rightarrow>
           ([], call_type ty (Loc [x, y]) None)))
      else if t = ''POINTZ'' then
        (case X r of None \<Rightarrow> ([], Inl KeyError) | Some x \<Rightarrow>
        (case Y r of None \<Rightarrow> ([], Inl KeyError) | Some y \<Rightarrow>
        (case call_type ty (Loc [x, y]) None of Inl e \<Rightarrow> ([], Inl e) | Inr shp \<Rightarrow>
        (case Z r of None \<Rightarrow> ([], Inl KeyError) | Some z \<Rightarrow>
        (case M r of None \<Rightarrow> ([], Inl KeyError) | Some m \<Rightarrow>
           ([], Inr (set_M (set_Z shp z) m)))))))
      else
        (case NumParts r of None \<Rightarrow> ([], Inl KeyError) | Some n \<Rightarrow>
           (if n > 1 then
              (case Parts_Index r of None \<Rightarrow> ([], Inl KeyError) | Some pidx \<Rightarrow>
              (case Vertices r of None \<Rightarrow> ([], Inl KeyError) | Some verts \<Rightarrow>
              (case split_parts verts (map Some pidx @ [None]) [0..<nat n] of
                 Inl e \<Rightarrow> ([], Inl e)
               | Inr parts \<Rightarrow>
                   (if t = ''POLYGON'' then
                      (case global_is_clockwise c ''pysal'' of
                         Inl e \<Rightarrow> ([], Inl e)
                       | Inr f \<Rightarrow> ([], classify_parts f ty parts))
                    else ([], call_type ty (Nested parts) None)))))
            else if n = 1 then
              (case Vertices r of None \<Rightarrow> ([], Inl KeyError) | Some vertices \<Rightarrow>
                 (if t = ''POLYGON'' then
                    (case global_is_clockwise c ''cg'' of
                       Inl e \<Rightarrow> ([], Inl e)
                     | Inr f \<Rightarrow>
                         (if \<not> f vertices
                          then ([Warn (TopologyFixed p), Print (TopologyFixed p)],
                                call_type ty (Flat vertices) None)
                          else ([], call_type ty (Flat vertices) None)))
                  else ([], call_type ty (Flat vertices) None)))
            else ([Warn (ZeroParts p)], call_type ty (Nested [[]]) None))))"

definition read1 :: "'a cg \<Rightarrow> 'a session \<Rightarrow> 'a session \<times> (py_error + 'a shape option)" where
  \<comment> \<open>\<^verbatim>\<open>_read\<close>: \<open>None\<close> is the end of the data\<close>
  "read1 c self =
     (case dataObj self of
        None \<Rightarrow> (self, Inl AttributeError)
      | Some d \<Rightarrow>
          (case get_shape d (pos self) of
             Inl e \<Rightarrow> (self, Inr None)
           | Inr r \<Rightarrow>
               (let self = self\<lparr>pos := pos self + 1\<rparr>
                in case decode c (ftype d) (stype self) (pos self) r of
                     (evs, res) \<Rightarrow> (self\<lparr>diag := diag self @ evs\<rparr>, map_sum id Some res))))"

lemma read1_advances:
  assumes "read1 c self = (self', Inr (Some res))"
  shows "len_session self' - pos self' < len_session self - pos self"
proof (cases "dataObj self")
  case None
  with assms show ?thesis by (simp add: read1_def)
next
  case (Some d)
  show ?thesis
  proof (cases "pos self < length (shapes d)")
    case False
    with Some assms show ?thesis by (simp add: read1_def get_shape_def)
  next
    case True
    with Some assms have "dataObj self' = Some d \<and> pos self' = pos self + 1"
      by (auto simp: read1_def get_shape_def Let_def split: prod.splits)
    with Some True show ?thesis by (simp add: len_session_def)
  qed
qed

function read_all ::
  "'a cg \<Rightarrow> 'a session \<Rightarrow> 'a shape list \<Rightarrow> 'a session \<times> (py_error + 'a shape list)" where
  \<comment> \<open>the \<^verbatim>\<open>while 1\<close> loop of \<^verbatim>\<open>read\<close>: it stops at the first result that is not true\<close>
  "read_all c self result =
     (case read1 c self of
        (self', Inl e) \<Rightarrow> (self', Inl e)
      | (self', Inr None) \<Rightarrow> (self', Inr result)
      | (self', Inr (Some res)) \<Rightarrow>
          (if truth c res then read_all c self' (result @ [res]) else (self', Inr result)))"
  by pat_completeness auto
termination
  by (relation "measure (\<lambda>(c, self, result). len_session self - pos self)")
     (auto dest: read1_advances [OF sym])

declare read_all.simps [simp del]

fun read_n ::
  "'a cg \<Rightarrow> 'a session \<Rightarrow> nat \<Rightarrow> 'a shape option list
     \<Rightarrow> 'a session \<times> (py_error + 'a shape option list)" where
  \<comment> \<open>the \<^verbatim>\<open>for i in range(0,n)\<close> loop of \<^verbatim>\<open>read\<close>: only \<open>StopIteration\<close> breaks it\<close>
  "read_n c self 0 result = (self, Inr result)"
| "read_n c self (Suc k) result =
     (case read1 c self of
        (self', Inl e) \<Rightarrow> (if e = StopIteration then (self', Inr result) else (self', Inl e))
      | (self', Inr res) \<Rightarrow> read_n c self' k (result @ [res]))"

text \<open>
  Modelled from the spec: \<^verbatim>\<open>__geo_interface__\<close> and \<^verbatim>\<open>GeoSeries\<close> are not under src/; the
  result of a read is the geometries collected, in order. \<^verbatim>\<open>None\<close> has no
  \<^verbatim>\<open>__geo_interface__\<close>: reading the attribute raises \<open>AttributeError\<close>.
\<close>

fun geo_interfaces :: "'a shape option list \<Rightarrow> py_error + 'a shape list" where
  "geo_interfaces [] = Inr []"
| "geo_interfaces (None # rest) = Inl AttributeError"
| "geo_interfaces (Some shp # rest) =
     (case geo_interfaces rest of Inl e \<Rightarrow> Inl e | Inr geoms \<Rightarrow> Inr (shp # geoms))"

definition read :: "'a cg \<Rightarrow> 'a session \<Rightarrow> int \<Rightarrow> 'a session \<times> (py_error + 'a shape list option)" where
  \<comment> \<open>\<^verbatim>\<open>read(n)\<close>; the value \<open>None\<close> is Python's \<^verbatim>\<open>None\<close>\<close>
  "read c self n =
     (if n < 0 then
        (case read_all c self [] of
           (self', Inl e) \<Rightarrow> (self', Inl e)
         | (self', Inr result) \<Rightarrow>
             (let self' = self'\<lparr>pos := 0\<rparr> in
              (case geo_interfaces (map Some result) of
                 Inl e \<Rightarrow> (self', Inl e)
               | Inr geoms \<Rightarrow> (self', Inr (Some geoms)))))
      else if n = 0 then (self, Inr None)
      else
        (case read_n c self (nat n) [] of
           (self', Inl e) \<Rightarrow> (self', Inl e)
         | (self', Inr result) \<Rightarrow>
             (case geo_interfaces result of
                Inl e \<Rightarrow> (self', Inl e)
              | Inr geoms \<Rightarrow> (self', Inr (Some geoms)))))"

section \<open>A concrete geometry library\<close>

text \<open>
  Modelled from the spec: \<^verbatim>\<open>cg.is_clockwise\<close> and the bounding box are not under src/. The
  spec's RingClassifier: the signed area by the shoelace formula over consecutive vertex
  pairs, wrap-around included, and \<^verbatim>\<open>isClockwise(ring) := signedArea < 0\<close>; the bounding box
  is the min/max over all vertices. Coordinates are rationals here. These definitions give
  the theorems below concrete inputs; the theorems themselves hold for every library.
\<close>

definition signedArea :: "rat ring \<Rightarrow> rat" where
  "signedArea ring =
     (\<Sum>(v, w) \<leftarrow> zip ring (rotate1 ring). fst v * snd w - fst w * snd v) / 2"

definition isClockwise :: "rat ring \<Rightarrow> bool" where
  "isClockwise ring = (signedArea ring < 0)"

fun vertices_of :: "'a shape \<Rightarrow> 'a vertex list" where
  "vertices_of (Point l z m) = []"
| "vertices_of (Chain ps) = concat ps"
| "vertices_of (Polygon ps hs) = concat ps @ concat hs"

definition extents :: "rat shape \<Rightarrow> rat \<times> rat \<times> rat \<times> rat" where
  "extents shp =
     (case vertices_of shp of
        [] \<Rightarrow> (0, 0, 0, 0)
      | v # vs \<Rightarrow>
          (fold min (map fst vs) (fst v), fold min (map snd vs) (snd v),
           fold max (map fst vs) (fst v), fold max (map snd vs) (snd v)))"

definition cg_spec :: "rat cg" where
  "cg_spec = \<lparr>is_clockwise = isClockwise, bounding_box = extents, truth = (\<lambda>shp. True)\<rparr>"

section \<open>Writing a geometry and reading it back\<close>

definition roundtrip :: "'a cg \<Rightarrow> 'a shape \<Rightarrow> py_error + 'a shape option" where
  \<comment> \<open>a write-mode session takes the geometry as its first write; a read-mode session on the
      file it produced reads one record\<close>
  "roundtrip c g =
     (case init \<lparr>ftype = [], shapes = []\<rparr> ''w'' of Inl e \<Rightarrow> Inl e | Inr w \<Rightarrow>
      (case self_write c w g of (w', Inl e) \<Rightarrow> Inl e | (w', Inr u) \<Rightarrow>
        (case dataObj w' of None \<Rightarrow> Inl AttributeError | Some file \<Rightarrow>
          (case init file ''r'' of Inl e \<Rightarrow> Inl e | Inr r \<Rightarrow>
             (case read1 c r of (r', Inl e) \<Rightarrow> Inl e | (r', Inr res) \<Rightarrow> Inr res)))))"

section \<open>Example data\<close>

definition sq_cw :: "rat ring" where
  "sq_cw = [(0, 0), (0, 4), (4, 4), (4, 0), (0, 0)]"

definition sq2_cw :: "rat ring" where
  "sq2_cw = [(10, 0), (10, 4), (14, 4), (14, 0), (10, 0)]"

definition tri_ccw :: "rat ring" where
  "tri_ccw = [(1, 1), (2, 1), (1, 2), (1, 1)]"

definition tri2_ccw :: "rat ring" where
  "tri2_ccw = [(11, 1), (12, 1), (11, 2), (11, 1)]"

definition polygon_file :: "rat ring list \<Rightarrow> rat shp_file" where
  \<comment> \<open>a POLYGON file of one record whose parts are the given rings, in the given order\<close>
  "polygon_file parts =
     \<lparr>ftype = ''POLYGON'',
      shapes =
        [empty_rec\<lparr>Shape_Type := Some ''POLYGON'', NumParts := Some (int (length parts)),
           Parts_Index := Some (parts_index_loop [0] (butlast (map length parts))),
           NumPoints := Some (int (length (concat parts))),
           Vertices := Some (concat parts)\<rparr>]\<rparr>"

definition point_file :: "rat shp_file" where
  "point_file =
     \<lparr>ftype = ''POINT'',
      shapes = [empty_rec\<lparr>Shape_Type := Some ''POINT'', X := Some 1, Y := Some 2\<rparr>]\<rparr>"

definition pointm_file :: "rat shp_file" where
  "pointm_file =
     \<lparr>ftype = ''POINTM'',
      shapes = [empty_rec\<lparr>Shape_Type := Some ''POINTM'', X := Some 1, Y := Some 2,
                  M := Some 3\<rparr>]\<rparr>"

definition reader :: "'a shp_file \<Rightarrow> variant \<Rightarrow> nat \<Rightarrow> event list \<Rightarrow> 'a session" where
  \<comment> \<open>the read-mode session on a file, with its cursor and the diagnostics so far\<close>
  "reader file k p evs =
     \<lparr>pos = p, dataObj = Some file, stype = Cls k, write_fn = BaseWrite, diag = evs\<rparr>"

definition arc_file0 :: "rat shp_file" where
  \<comment> \<open>an ARC file whose one record has no part\<close>
  "arc_file0 =
     \<lparr>ftype = ''ARC'',
      shapes = [empty_rec\<lparr>Shape_Type := Some ''ARC'', NumParts := Some 0,
                  Parts_Index := Some [], NumPoints := Some 0, Vertices := Some []\<rparr>]\<rparr>"

section \<open>Predicates and functions of the statements\<close>

text \<open>
  The data model gives a point at least x and y: \<^verbatim>\<open>__writer\<close> reads \<^verbatim>\<open>shape[0]\<close> and
  \<^verbatim>\<open>shape[1]\<close> of every point it is given.
\<close>

fun has_xy :: "'a shape \<Rightarrow> bool" where
  "has_xy (Point l z m) = (2 \<le> length l)"
| "has_xy shp = True"

text \<open>The session is in the state Typed: \<^verbatim>\<open>self.write\<close> is \<^verbatim>\<open>__writer\<close> and the type is locked to a tag.\<close>

definition locked :: "'a session \<Rightarrow> string \<Rightarrow> bool" where
  "locked s t = (write_fn s = Writer \<and> stype s = Str t \<and> dataObj s \<noteq> None)"

definition w0 :: "rat session" where
  "w0 = \<lparr>pos = 0, dataObj = None, stype = NoType, write_fn = FirstWrite, diag = []\<rparr>"

definition w1 :: "rat session" where
  "w1 = \<lparr>pos = 1, dataObj = Some point_file, stype = Str ''POINT'', write_fn = Writer, diag = []\<rparr>"

text \<open>
  The claim's words for the part index, "cumulative prefix sums of part lengths (first
  element 0)": the offset at which each part starts in the flattened vertex run. A record
  without parts still gets the single offset 0.
\<close>

definition prefix_sums :: "'b list list \<Rightarrow> int list" where
  "prefix_sums parts = map (\<lambda>k. int (length (concat (take k parts)))) [0..<max 1 (length parts)]"











section \<open>Lemmas on the model\<close>

lemma cg_bound: "global_is_clockwise c ''cg'' = Inr (is_clockwise c)"
  by (simp add: global_is_clockwise_def module_globals_def)

lemma pysal_unbound: "global_is_clockwise c ''pysal'' = Inl NameError"
  by (simp add: global_is_clockwise_def module_globals_def)

lemma read1_decode:
  assumes "dataObj s = Some d" and "pos s < length (shapes d)"
    and "decode c (ftype d) (stype s) (pos s + 1) (shapes d ! pos s) = (evs, res)"
  shows "read1 c s = (s\<lparr>pos := pos s + 1, diag := diag s @ evs\<rparr>, map_sum id Some res)"
  using assms by (simp add: read1_def get_shape_def)


lemma encode_total:
  assumes "has_xy g"
  shows "\<exists>r. encode c (TYPE_TO_STRING (type_of g)) g = Inr r"
  using assms by (cases g) (auto simp: encode_def Let_def split: prod.splits)

lemma writer_mismatch:
  assumes "stype s = Str t" and "TYPE_TO_STRING (type_of g) \<noteq> t"
  shows "writer c s g = (s, Inl TypeError)"
  using assms by (simp add: writer_def)

lemma writer_match:
  assumes "stype s = Str t" and "TYPE_TO_STRING (type_of g) = t" and "dataObj s = Some d"
    and "encode c t g = Inr r"
  shows "writer c s g = (s\<lparr>dataObj := Some (add_shape d r), pos := pos s + 1\<rparr>, Inr ())"
  using assms by (simp add: writer_def)

lemma writer_success:
  assumes "writer c s g = (s', Inr ())"
  shows "stype s = Str (TYPE_TO_STRING (type_of g)) \<and> stype s' = stype s \<and>
         write_fn s' = write_fn s \<and> dataObj s' \<noteq> None"
  using assms
  by (auto simp: writer_def split: pytype.splits if_splits sum.splits option.splits)

lemma writer_keeps_lock:
  assumes "locked s t"
  shows "locked (fst (writer c s g)) t"
  using assms
  by (auto simp: locked_def writer_def split: pytype.splits if_splits sum.splits option.splits)

lemma write_success_locks:
  assumes "self_write c s0 g0 = (s1, Inr ())"
  shows "locked s1 (TYPE_TO_STRING (type_of g0))"
proof (cases "write_fn s0")
  case BaseWrite
  with assms show ?thesis by (simp add: self_write_def)
next
  case Writer
  with assms have "writer c s0 g0 = (s1, Inr ())" by (simp add: self_write_def)
  from writer_success [OF this] Writer show ?thesis by (simp add: locked_def)
next
  case FirstWrite
  with assms obtain s where w: "writer c s g0 = (s1, Inr ())" and "write_fn s = Writer"
    by (auto simp: self_write_def firstWrite_def Let_def)
  from writer_success [OF w] this(2) show ?thesis by (simp add: locked_def)
qed

lemma locked_write:
  assumes "locked s t"
  shows "self_write c s g = writer c s g"
  using assms by (simp add: locked_def self_write_def)

lemma writes_keep_lock:
  assumes "locked s t"
  shows "locked (writes c s gs) t"
  using assms
proof (induction gs arbitrary: s)
  case Nil
  then show ?case by simp
next
  case (Cons g gs)
  from Cons.prems have "locked (fst (self_write c s g)) t"
    by (simp add: locked_write writer_keeps_lock)
  from Cons.IH [OF this] show ?case by simp
qed

lemma parts_index_loop_eq:
  assumes "acc \<noteq> []"
  shows "parts_index_loop acc ls =
           acc @ map (\<lambda>k. last acc + int (sum_list (take (Suc k) ls))) [0..<length ls]"
  using assms
proof (induction ls arbitrary: acc)
  case Nil
  then show ?case by simp
next
  case (Cons l ls)
  have "parts_index_loop acc (l # ls) = parts_index_loop (acc @ [last acc + int l]) ls"
    by simp
  also have "\<dots> = (acc @ [last acc + int l]) @
      map (\<lambda>k. (last acc + int l) + int (sum_list (take (Suc k) ls))) [0..<length ls]"
    by (subst Cons.IH) simp_all
  also have "\<dots> = acc @
      map (\<lambda>k. last acc + int (sum_list (take (Suc k) (l # ls)))) [0..<length (l # ls)]"
    by (simp add: map_upt_Suc del: upt_Suc)
  finally show ?case .
qed

lemma sum_take_lengths: "sum_list (take k (map length ps)) = length (concat (take k ps))"
  by (simp add: length_concat take_map)

lemma parts_index_prefix_sums:
  "parts_index_loop [0] (butlast (map length ps)) = prefix_sums ps"
proof (cases "ps = []")
  case True
  then show ?thesis by (simp add: prefix_sums_def)
next
  case False
  then obtain n where n: "length ps = Suc n" by (cases ps) auto
  have "parts_index_loop [0] (butlast (map length ps)) =
          0 # map (\<lambda>k. int (sum_list (take (Suc k) (butlast (map length ps))))) [0..<n]"
    by (simp add: parts_index_loop_eq n)
  also have "map (\<lambda>k. int (sum_list (take (Suc k) (butlast (map length ps))))) [0..<n] =
             map (\<lambda>k. int (length (concat (take (Suc k) ps)))) [0..<n]"
    by (rule map_cong) (simp_all add: take_butlast n sum_take_lengths)
  also have "0 # \<dots> = prefix_sums ps"
    by (simp add: prefix_sums_def n map_upt_Suc del: upt_Suc)
  finally show ?thesis .
qed









text \<open>
  The branch of \<^verbatim>\<open>_read\<close> for a POLYGON record of more than one part never yields a
  geometry: with a well-formed part index it raises \<open>NameError\<close>.
\<close>

lemma split_parts_map:
  assumes "\<forall>i\<in>set is. Suc i < length pidx"
  shows "split_parts vs pidx is = Inr (map (\<lambda>i. py_slice vs (pidx ! i) (pidx ! Suc i)) is)"
  using assms by (induction "is") simp_all

lemma multipart_polygon_raises:
  assumes "NumParts r = Some n" and "1 < n" and "Parts_Index r = Some pidx"
    and "nat n \<le> length pidx" and "Vertices r = Some vs"
  shows "decode c ''POLYGON'' ty p r = ([], Inl NameError)"
proof -
  have "\<forall>i\<in>set [0..<nat n]. Suc i < length (map Some pidx @ [None])"
    using assms(4) by auto
  then have sp: "split_parts vs (map Some pidx @ [None]) [0..<nat n] =
      Inr (map (\<lambda>i. py_slice vs ((map Some pidx @ [None]) ! i)
                     ((map Some pidx @ [None]) ! Suc i)) [0..<nat n])"
    by (rule split_parts_map)
  show ?thesis
    unfolding decode_def using assms(1,2,3,5) by (simp add: sp pysal_unbound)
qed

lemma multipart_polygon_never_decodes:
  assumes "NumParts r = Some n" and "1 < n"
  shows "\<exists>e. snd (decode c ''POLYGON'' ty p r) = Inl e"
  using assms by (auto simp: decode_def pysal_unbound split: option.splits sum.splits)

text \<open>
  The lines after the failing lookup would split the parts by orientation alone, keeping
  their order: the clockwise parts as shells, the others as holes, no hole at all when
  every part is clockwise.
\<close>

lemma zip_filter_true: "map fst (filter (\<lambda>(part, cw). cw) (zip ps (map f ps))) = filter f ps"
  by (induction ps) simp_all

lemma zip_filter_false:
  "map fst (filter (\<lambda>(part, cw). \<not> cw) (zip ps (map f ps))) = filter (\<lambda>part. \<not> f part) ps"
  by (induction ps) simp_all

lemma classify_parts_polygon:
  "classify_parts f (Cls cgPolygon) parts =
     Inr (Polygon (filter f parts) (filter (\<lambda>part. \<not> f part) parts))"
proof -
  let ?holes = "filter (\<lambda>part. \<not> f part) parts"
  have "classify_parts f (Cls cgPolygon) parts =
          call_type (Cls cgPolygon) (Nested (filter f parts))
            (if ?holes = [] then None else Some ?holes)"
    unfolding classify_parts_def Let_def zip_filter_true zip_filter_false ..
  then show ?thesis by (cases "?holes = []") simp_all
qed

text \<open>Slicing the flattened vertex run at the part index gives the parts back.\<close>

lemma length_prefix_sums: "length (prefix_sums ps) = max 1 (length ps)"
  by (simp add: prefix_sums_def)

lemma concat_take_drop: "concat ps = concat (take i ps) @ concat (drop i ps)"
  by (metis append_take_drop_id concat_append)

lemma drop_prefix: "drop (length (concat (take i ps))) (concat ps) = concat (drop i ps)"
  by (subst concat_take_drop [of ps i]) simp

lemma prefix_le: "length (concat (take i ps)) \<le> length (concat ps)"
proof -
  have "length (concat ps) = length (concat (take i ps)) + length (concat (drop i ps))"
    by (metis concat_take_drop length_append)
  then show ?thesis by simp
qed

lemma slice_part:
  assumes "i < length ps"
  shows "py_slice (concat ps) ((map Some (prefix_sums ps) @ [None]) ! i)
           ((map Some (prefix_sums ps) @ [None]) ! Suc i) = ps ! i"
proof -
  let ?v = "concat ps"
  let ?lo = "length (concat (take i ps))"
  from assms have len: "length (prefix_sums ps) = length ps" by (simp add: length_prefix_sums)
  have a: "(map Some (prefix_sums ps) @ [None]) ! i = Some (int ?lo)"
    using assms len by (simp add: nth_append prefix_sums_def)
  have lo: "slice_bound (length ?v) (int ?lo) = ?lo"
    using prefix_le [of i ps] by (simp add: slice_bound_def)
  have dr: "concat (drop i ps) = ps ! i @ concat (drop (Suc i) ps)"
    using assms by (simp add: Cons_nth_drop_Suc [symmetric])
  show ?thesis
  proof (cases "Suc i < length ps")
    case True
    let ?hi = "length (concat (take (Suc i) ps))"
    have b: "(map Some (prefix_sums ps) @ [None]) ! Suc i = Some (int ?hi)"
      using True len by (simp add: nth_append prefix_sums_def del: upt_Suc)
    have hi: "slice_bound (length ?v) (int ?hi) = ?hi"
      using prefix_le [of "Suc i" ps] by (simp add: slice_bound_def)
    have diff: "?hi - ?lo = length (ps ! i)"
      using assms by (simp add: take_Suc_conv_app_nth)
    have "py_slice ?v (Some (int ?lo)) (Some (int ?hi)) = take (?hi - ?lo) (drop ?lo ?v)"
      by (simp add: py_slice_def lo hi Let_def)
    also have "\<dots> = take (length (ps ! i)) (ps ! i @ concat (drop (Suc i) ps))"
      by (simp only: diff drop_prefix dr)
    also have "\<dots> = ps ! i" by simp
    finally show ?thesis unfolding a b .
  next
    case False
    with assms have last: "Suc i = length ps" by simp
    have b: "(map Some (prefix_sums ps) @ [None]) ! Suc i = None"
      using last len by (simp add: nth_append)
    have "drop (Suc i) ps = []" using last by simp
    with dr have dr': "concat (drop i ps) = ps ! i" by simp
    have "py_slice ?v (Some (int ?lo)) None = drop ?lo ?v"
      by (simp add: py_slice_def lo Let_def)
    also have "\<dots> = ps ! i" by (simp only: drop_prefix dr')
    finally show ?thesis unfolding a b .
  qed
qed

lemma split_concat:
  "split_parts (concat ps) (map Some (prefix_sums ps) @ [None]) [0..<length ps] = Inr ps"
proof -
  let ?pidx = "map Some (prefix_sums ps) @ [None]"
  have "\<forall>i\<in>set [0..<length ps]. Suc i < length ?pidx"
    by (auto simp: length_prefix_sums)
  then have "split_parts (concat ps) ?pidx [0..<length ps] =
          Inr (map (\<lambda>i. py_slice (concat ps) (?pidx ! i) (?pidx ! Suc i)) [0..<length ps])"
    by (rule split_parts_map)
  also have "map (\<lambda>i. py_slice (concat ps) (?pidx ! i) (?pidx ! Suc i)) [0..<length ps] =
             map (\<lambda>i. ps ! i) [0..<length ps]"
    by (rule map_cong) (simp_all add: slice_part)
  also have "\<dots> = ps" by (rule map_nth)
  finally show ?thesis .
qed

text \<open>
  What does survive the round trip, for every geometry library: a point of two
  coordinates, a chain of at least one part, and a polygon of a single ring.
\<close>

lemma roundtrip_point:
  "roundtrip c (Point [x, y] None None) = Inr (Some (Point [x, y] None None))"
  by (simp add: roundtrip_def init_def create_def self_write_def firstWrite_def writer_def
      encode_def add_shape_def open_shp_def STRING_TO_TYPE_def read1_def get_shape_def
      decode_def empty_rec_def Let_def)

lemma roundtrip_chain:
  assumes "parts \<noteq> []"
  shows "roundtrip c (Chain parts) = Inr (Some (Chain parts))"
proof -
  obtain l lo ri u where bb: "bounding_box c (Chain parts) = (l, lo, ri, u)"
    by (cases "bounding_box c (Chain parts)") auto
  let ?r = "parts_record (empty_rec\<lparr>Shape_Type := Some ''ARC'', BBOX_Xmin := Some l,
      BBOX_Ymin := Some lo, BBOX_Xmax := Some ri, BBOX_Ymax := Some u\<rparr>) parts (length parts)"
  have enc: "encode c ''ARC'' (Chain parts) = Inr ?r"
    by (simp add: encode_def bb Let_def)
  have dec: "decode c ''ARC'' (Cls cgChain) (Suc 0) ?r = ([], Inr (Chain parts))"
  proof (cases "1 < length parts")
    case True
    then show ?thesis
      by (simp add: decode_def parts_record_def Let_def parts_index_prefix_sums split_concat)
  next
    case False
    with assms obtain p where "parts = [p]" by (cases parts) auto
    then show ?thesis by (simp add: decode_def parts_record_def Let_def)
  qed
  show ?thesis
    by (simp add: roundtrip_def init_def create_def self_write_def firstWrite_def writer_def
      enc add_shape_def open_shp_def STRING_TO_TYPE_def read1_def get_shape_def
      dec Let_def)
qed

lemma roundtrip_single_ring:
  "roundtrip c (Polygon [ring] []) = Inr (Some (Polygon [ring] []))"
proof -
  obtain l lo ri u where bb: "bounding_box c (Polygon [ring] []) = (l, lo, ri, u)"
    by (cases "bounding_box c (Polygon [ring] [])") auto
  show ?thesis
    by (simp add: roundtrip_def init_def create_def self_write_def firstWrite_def writer_def
      encode_def bb add_shape_def open_shp_def STRING_TO_TYPE_def read1_def get_shape_def
      decode_def parts_record_def cg_bound Let_def)
qed





section \<open>Claims\<close>

text \<open>
  C5 (defect of the code). A POINTM file opens: \<^verbatim>\<open>STRING_TO_TYPE\<close> maps the tag to the point
  class. But \<^verbatim>\<open>_read\<close> has a branch for POINT and one for POINTZ and none for POINTM, so a
  POINTM record falls into the branch of the multi-part geometries, where reading the key
  \<^verbatim>\<open>NumParts\<close>, which a point record does not have, raises \<open>KeyError\<close>. The claim says a Point
  carrying M is decoded. The cursor has already advanced when the error is raised.
\<close>

theorem C5_pointm_record_fails:
  "init pointm_file ''r'' = Inr (reader pointm_file cgPoint 0 []) \<and>
   read1 cg_spec (reader pointm_file cgPoint 0 []) =
     (reader pointm_file cgPoint 1 [], Inl KeyError)"
  by code_simp

text \<open>
  C7 (defect of the code). On a stream of one record, \<^verbatim>\<open>read(2)\<close> does not stop early with
  the one record read: at the end of the data \<^verbatim>\<open>_read\<close> returns \<^verbatim>\<open>None\<close> instead of raising
  the \<open>StopIteration\<close> the loop waits for, \<^verbatim>\<open>None\<close> is appended to the result, and taking its
  \<^verbatim>\<open>__geo_interface__\<close> raises \<open>AttributeError\<close>. \<^verbatim>\<open>read(1)\<close> on the same stream returns the
  record, and \<^verbatim>\<open>read(0)\<close> returns \<^verbatim>\<open>None\<close> and leaves the session as it was.
\<close>

theorem C7_partial_read_past_end_fails:
  "read cg_spec (reader point_file cgPoint 0 []) 2 =
     (reader point_file cgPoint 1 [], Inl AttributeError) \<and>
   read cg_spec (reader point_file cgPoint 0 []) 1 =
     (reader point_file cgPoint 1 [], Inr (Some [Point [1, 2] None None])) \<and>
   read cg_spec (reader point_file cgPoint 0 []) 0 =
     (reader point_file cgPoint 0 [], Inr None)"
  by code_simp

text \<open>
  C2 (defect of the code). A POLYGON record of three parts, two clockwise squares with a
  counter-clockwise triangle between them, is not decoded: the branch for more than one
  part calls \<^verbatim>\<open>pysal.cg.is_clockwise\<close>, and the name \<^verbatim>\<open>pysal\<close> is not bound in the module (its
  import is commented out; the single-part branch calls \<^verbatim>\<open>cg.is_clockwise\<close>, which is
  bound). The read raises \<open>NameError\<close> instead of yielding two shells and one hole, which
  is what the lines after the lookup compute (lemma \<open>classify_parts_polygon\<close>).
\<close>

theorem C2_multipart_polygon_fails:
  "isClockwise sq_cw \<and> isClockwise sq2_cw \<and> \<not> isClockwise tri_ccw \<and>
   init (polygon_file [sq_cw, tri_ccw, sq2_cw]) ''r'' =
     Inr (reader (polygon_file [sq_cw, tri_ccw, sq2_cw]) cgPolygon 0 []) \<and>
   read1 cg_spec (reader (polygon_file [sq_cw, tri_ccw, sq2_cw]) cgPolygon 0 []) =
     (reader (polygon_file [sq_cw, tri_ccw, sq2_cw]) cgPolygon 1 [], Inl NameError)"
  by code_simp

text \<open>
  C10 (defect of the code, the same as for C2). A POLYGON record of two counter-clockwise
  rings is not decoded into a polygon without shells whose holes are the two rings: the
  read raises \<open>NameError\<close> at \<^verbatim>\<open>pysal.cg.is_clockwise\<close>, before the lines that would
  build that polygon (lemma \<open>classify_parts_polygon\<close>).
\<close>

theorem C10_all_ccw_polygon_fails:
  "\<not> isClockwise tri_ccw \<and> \<not> isClockwise tri2_ccw \<and>
   read1 cg_spec (reader (polygon_file [tri_ccw, tri2_ccw]) cgPolygon 0 []) =
     (reader (polygon_file [tri_ccw, tri2_ccw]) cgPolygon 1 [], Inl NameError)"
  by code_simp

text \<open>
  C1 (defect of the code). A point with a third coordinate cannot be written at all:
  \<^verbatim>\<open>__firstWrite\<close> locks the session to POINTM, and \<^verbatim>\<open>__writer\<close> then compares the tag of the
  point class, POINT, with the locked POINTM and raises \<open>TypeError\<close>. A polygon with a hole
  is written as two parts and cannot be read back: decoding raises \<open>NameError\<close> (the defect
  of C2). Neither round trip yields a geometry. The lemmas \<open>roundtrip_point\<close>,
  \<open>roundtrip_chain\<close> and \<open>roundtrip_single_ring\<close> show the geometries that do come back.
\<close>

theorem C1_roundtrip_fails:
  "roundtrip cg_spec (Point [1, 2, 3] None None) = Inl TypeError \<and>
   roundtrip cg_spec (Polygon [sq_cw] [tri_ccw]) = Inl NameError"
  by code_simp

text \<open>
  C6 (corrected). The claim puts the warning for the first record of the stream at
  position 0. \<^verbatim>\<open>_read\<close> advances the cursor before it decodes, and the warning carries the
  cursor: the first record is reported as polygon 1.
\<close>

theorem C6_counterexample:
  "\<not> isClockwise tri_ccw \<and>
   read1 cg_spec (reader (polygon_file [tri_ccw]) cgPolygon 0 []) =
     (reader (polygon_file [tri_ccw]) cgPolygon 1
        [Warn (TopologyFixed 1), Print (TopologyFixed 1)],
      Inr (Some (Polygon [tri_ccw] []))) \<and>
   Warn (TopologyFixed 0) \<notin>
     set (diag (fst (read1 cg_spec (reader (polygon_file [tri_ccw]) cgPolygon 0 []))))"
  by code_simp

text \<open>
  C6 as amended: for every record of a POLYGON file with \<^verbatim>\<open>NumParts = 1\<close> whose single ring is
  not clockwise, for every orientation test, the read does not fail; it emits exactly one
  topology warning, which carries the cursor after the read (the 1-based number of the
  record: 1 for the first record), prints the same line once, and yields the polygon with
  that ring as its only shell and no hole.
\<close>

theorem C6_single_ccw_ring:
  assumes "dataObj s = Some d" and "ftype d = ''POLYGON''" and "stype s = Cls cgPolygon"
    and "pos s < length (shapes d)"
    and "NumParts (shapes d ! pos s) = Some 1"
    and "Vertices (shapes d ! pos s) = Some vs"
    and "\<not> is_clockwise c vs"
  shows "read1 c s =
           (s\<lparr>pos := pos s + 1,
               diag := diag s @ [Warn (TopologyFixed (pos s + 1)),
                                 Print (TopologyFixed (pos s + 1))]\<rparr>,
            Inr (Some (Polygon [vs] [])))"
proof -
  have "decode c (ftype d) (stype s) (pos s + 1) (shapes d ! pos s) =
          ([Warn (TopologyFixed (pos s + 1)), Print (TopologyFixed (pos s + 1))],
           Inr (Polygon [vs] []))"
    using assms by (simp add: decode_def cg_bound)
  from read1_decode [OF assms(1) assms(4) this] show ?thesis by simp
qed

theorem C6_single_ccw_ring_witness:
  "\<not> is_clockwise cg_spec tri_ccw \<and>
   read1 cg_spec (reader (polygon_file [tri_ccw]) cgPolygon 0 []) =
     (reader (polygon_file [tri_ccw]) cgPolygon 0 []
        \<lparr>pos := 1, diag := [Warn (TopologyFixed 1), Print (TopologyFixed 1)]\<rparr>,
      Inr (Some (Polygon [tri_ccw] [])))"
proof -
  have ccw: "\<not> is_clockwise cg_spec tri_ccw" by code_simp
  from C6_single_ccw_ring [of "reader (polygon_file [tri_ccw]) cgPolygon 0 []"
      "polygon_file [tri_ccw]" tri_ccw cg_spec, OF _ _ _ _ _ _ ccw]
  show ?thesis using ccw by (simp add: reader_def polygon_file_def empty_rec_def)
qed

text \<open>
  C9: for every record with \<^verbatim>\<open>NumParts = 0\<close> in a file whose declared type is one of the
  multi-part types (POLYGON, POLYGONZ, ARC), the read does not fail: it emits one
  zero-parts warning carrying the cursor after the read (the 1-based number of the record)
  and yields a geometry of the file's variant, built from the single empty part
  \<^verbatim>\<open>[[]]\<close>, that has no vertex.
\<close>

theorem C9_zero_parts:
  assumes "dataObj s = Some d" and "pos s < length (shapes d)"
    and "NumParts (shapes d ! pos s) = Some 0"
    and "ftype d \<in> {''POLYGON'', ''POLYGONZ'', ''ARC''}"
    and "STRING_TO_TYPE (ftype d) = Some k" and "stype s = Cls k"
  shows "\<exists>shp. read1 c s =
           (s\<lparr>pos := pos s + 1, diag := diag s @ [Warn (ZeroParts (pos s + 1))]\<rparr>,
            Inr (Some shp)) \<and>
         shp = (if k = cgChain then Chain [[]] else Polygon [[]] []) \<and>
         type_of shp = k \<and> vertices_of shp = []"
proof -
  from assms(4,5) have k: "k = cgPolygon \<or> k = cgChain"
    by (auto simp: STRING_TO_TYPE_def)
  have "decode c (ftype d) (stype s) (pos s + 1) (shapes d ! pos s) =
          ([Warn (ZeroParts (pos s + 1))],
           Inr (if k = cgChain then Chain [[]] else Polygon [[]] []))"
    using assms k by (auto simp: decode_def)
  from read1_decode [OF assms(1) assms(2) this] k show ?thesis by auto
qed

theorem C9_zero_parts_witness:
  "read1 cg_spec (reader arc_file0 cgChain 0 []) =
     (reader arc_file0 cgChain 0 []\<lparr>pos := 1, diag := [Warn (ZeroParts 1)]\<rparr>,
      Inr (Some (Chain [[]])))"
  using C9_zero_parts [of "reader arc_file0 cgChain 0 []" arc_file0 cgChain cg_spec]
  by (simp add: reader_def arc_file0_def empty_rec_def STRING_TO_TYPE_def)

text \<open>
  C3: after a successful write \<open>g0\<close> on a session (the first one locks the type), and
  after any further writes \<open>gs\<close>, accepted or refused, a write of a geometry of another
  variant than \<open>g0\<close> fails with \<open>TypeError\<close> and leaves the whole session, cursor included,
  as it was; a write of a geometry of the same variant (a point having at least x and y) is
  encoded, its record is appended and the cursor advances by 1. This holds for every
  geometry library.
\<close>

theorem C3_type_lock:
  assumes first: "self_write c s0 g0 = (s1, Inr ())"
    and later: "s = writes c s1 gs"
  shows "(type_of g \<noteq> type_of g0 \<longrightarrow> self_write c s g = (s, Inl TypeError)) \<and>
         (type_of g = type_of g0 \<longrightarrow> has_xy g \<longrightarrow>
            (\<exists>d r. dataObj s = Some d \<and> encode c (TYPE_TO_STRING (type_of g0)) g = Inr r \<and>
               self_write c s g =
                 (s\<lparr>dataObj := Some (add_shape d r), pos := pos s + 1\<rparr>, Inr ())))"
proof -
  let ?t = "TYPE_TO_STRING (type_of g0)"
  have inj: "\<And>a b. TYPE_TO_STRING a = TYPE_TO_STRING b \<Longrightarrow> a = b"
    subgoal for a b by (cases a; cases b) simp_all
    done
  from write_success_locks [OF first] have "locked s ?t"
    unfolding later by (rule writes_keep_lock)
  then have w: "self_write c s g = writer c s g" and ty: "stype s = Str ?t"
    and d: "dataObj s \<noteq> None"
    by (simp_all add: locked_write locked_def)
  show ?thesis
  proof (intro conjI impI)
    assume "type_of g \<noteq> type_of g0"
    with inj have "TYPE_TO_STRING (type_of g) \<noteq> ?t" by blast
    with w ty show "self_write c s g = (s, Inl TypeError)"
      by (simp add: writer_mismatch)
  next
    assume same: "type_of g = type_of g0" and "has_xy g"
    from encode_total [OF this(2), of c] same obtain r where r: "encode c ?t g = Inr r"
      by auto
    from d obtain d' where d': "dataObj s = Some d'" by auto
    from writer_match [OF ty _ d' r] same w d' r
    show "\<exists>d r. dataObj s = Some d \<and> encode c ?t g = Inr r \<and>
            self_write c s g = (s\<lparr>dataObj := Some (add_shape d r), pos := pos s + 1\<rparr>, Inr ())"
      by auto
  qed
qed


theorem C3_type_lock_witness:
  "init \<lparr>ftype = [], shapes = []\<rparr> ''w'' = Inr w0 \<and>
   self_write cg_spec w0 (Point [1, 2] None None) = (w1, Inr ()) \<and>
   self_write cg_spec (writes cg_spec w1 [Chain [[(0, 0), (1, 1)]], Point [3, 4, 5] None None])
       (Polygon [sq_cw] []) =
     (writes cg_spec w1 [Chain [[(0, 0), (1, 1)]], Point [3, 4, 5] None None], Inl TypeError) \<and>
   pos (writes cg_spec w1 [Chain [[(0, 0), (1, 1)]], Point [3, 4, 5] None None]) = 2 \<and>
   snd (self_write cg_spec
          (writes cg_spec w1 [Chain [[(0, 0), (1, 1)]], Point [3, 4, 5] None None])
          (Point [6, 7] None None)) = Inr () \<and>
   pos (fst (self_write cg_spec
          (writes cg_spec w1 [Chain [[(0, 0), (1, 1)]], Point [3, 4, 5] None None])
          (Point [6, 7] None None))) = 3"
proof -
  let ?s = "writes cg_spec w1 [Chain [[(0, 0), (1, 1)]], Point [3, 4, 5] None None]"
  have i: "init \<lparr>ftype = [], shapes = []\<rparr> ''w'' = Inr w0" by code_simp
  have first: "self_write cg_spec w0 (Point [1, 2] None None) = (w1, Inr ())" by code_simp
  have p: "pos ?s = 2" by code_simp
  from C3_type_lock [where g = "Polygon [sq_cw] []" and s = ?s, OF first refl]
  have a: "self_write cg_spec ?s (Polygon [sq_cw] []) = (?s, Inl TypeError)" by simp
  from C3_type_lock [where g = "Point [6, 7] None None" and s = ?s, OF first refl] p
  have b: "snd (self_write cg_spec ?s (Point [6, 7] None None)) = Inr () \<and>
           pos (fst (self_write cg_spec ?s (Point [6, 7] None None))) = 3"
    by auto
  from i first a p b show ?thesis by blast
qed






end
